theory Spec2Isabelle
  imports Complex_Main
begin

section \<open>JavaScript values used by the jitter\<close>

text \<open>
  The source is \<^verbatim>\<open>src/src/index.js\<close>. Its methods receive untyped JavaScript values, so
  the interval arguments are modelled by a datatype of primitive values: \<^verbatim>\<open>undefined\<close>
  (also standing for a missing argument or property), \<^verbatim>\<open>null\<close>, the booleans and the
  numbers. A number is \<^verbatim>\<open>NaN\<close>, one of the two infinities, or a finite value, held as
  the rational it denotes; arithmetic rounds to binary64 (see below), and the sign of
  zero is not modelled.
  Strings, symbols, bigints and objects (whose conversion to a number runs the host's
  string grammar or user code) are outside the model.
\<close>

datatype jsnum = NaN | NegInf | Fin rat | PosInf

datatype jsval = Undefined | Null | Boolean bool | Number jsnum

text \<open>
  The callback argument is either a function object, identified by a number, or one of
  the primitive values above; \<^verbatim>\<open>typeof x === "function"\<close> holds of the former only.
\<close>

datatype cbval = Callable nat | NotCallable jsval

fun is_function :: "cbval \<Rightarrow> bool" where
  "is_function (Callable f) = True"
| "is_function (NotCallable v) = False"

subsection \<open>Conversions and operators of the language\<close>

fun ToNumber :: "jsval \<Rightarrow> jsnum" where
  "ToNumber Undefined = NaN"
| "ToNumber Null = Fin 0"
| "ToNumber (Boolean b) = (if b then Fin 1 else Fin 0)"
| "ToNumber (Number n) = n"

fun ToBoolean :: "jsval \<Rightarrow> bool" where
  "ToBoolean Undefined = False"
| "ToBoolean Null = False"
| "ToBoolean (Boolean b) = b"
| "ToBoolean (Number NaN) = False"
| "ToBoolean (Number (Fin x)) = (x \<noteq> 0)"
| "ToBoolean (Number NegInf) = True"
| "ToBoolean (Number PosInf) = True"

text \<open>The comparison \<^verbatim>\<open>x < y\<close> of two numbers: false as soon as one of them is \<^verbatim>\<open>NaN\<close>.\<close>

fun num_lt :: "jsnum \<Rightarrow> jsnum \<Rightarrow> bool" where
  "num_lt NaN y = False"
| "num_lt x NaN = False"
| "num_lt NegInf NegInf = False"
| "num_lt NegInf y = True"
| "num_lt (Fin x) NegInf = False"
| "num_lt (Fin x) (Fin y) = (x < y)"
| "num_lt (Fin x) PosInf = True"
| "num_lt PosInf y = False"

text \<open>Strict equality \<^verbatim>\<open>x === y\<close>: same type, same value, and \<^verbatim>\<open>NaN\<close> equal to nothing.\<close>

fun strict_eq :: "jsval \<Rightarrow> jsval \<Rightarrow> bool" where
  "strict_eq (Number NaN) y = False"
| "strict_eq x (Number NaN) = False"
| "strict_eq x y = (x = y)"

definition strict_neq :: "jsval \<Rightarrow> jsval \<Rightarrow> bool" where
  "strict_neq x y = (\<not> strict_eq x y)"

text \<open>
  The relational operators on the primitive values convert both operands with
  \<^const>\<open>ToNumber\<close>. \<^verbatim>\<open>x > y\<close> is \<^verbatim>\<open>y < x\<close>; \<^verbatim>\<open>x <= y\<close> is true when \<^verbatim>\<open>y < x\<close> is
  false and neither operand is \<^verbatim>\<open>NaN\<close>.
\<close>

definition js_lt :: "jsval \<Rightarrow> jsval \<Rightarrow> bool" where
  "js_lt x y = num_lt (ToNumber x) (ToNumber y)"

definition js_gt :: "jsval \<Rightarrow> jsval \<Rightarrow> bool" where
  "js_gt x y = num_lt (ToNumber y) (ToNumber x)"

definition js_le :: "jsval \<Rightarrow> jsval \<Rightarrow> bool" where
  "js_le x y = (ToNumber x \<noteq> NaN \<and> ToNumber y \<noteq> NaN \<and> \<not> num_lt (ToNumber y) (ToNumber x))"

subsection \<open>Rounding to binary64\<close>

text \<open>
  The numbers of the language are IEEE 754 binary64 values, and each arithmetic
  operation returns the exact result rounded to the nearest such value, ties to the even
  significand. \<open>bit_length n\<close> is the number of binary digits of \<open>n\<close>, and \<open>ilog2 x\<close> the
  integer \<open>e\<close> with \<open>2^e \<le> x < 2^(e+1)\<close> for a positive \<open>x\<close>. The doubles around \<open>a\<close> are the
  multiples of \<open>quantum a\<close>: 53 significant bits, and the fixed spacing \<open>2^-1074\<close> below
  \<open>2^-1022\<close>. The rounded significand \<open>m\<close> is at most \<open>2^53\<close>, so the result \<open>m * quantum a\<close>
  reaches \<open>2^1024\<close>, and is an infinity, exactly when \<open>e \<ge> 1024\<close> or \<open>e = 1023\<close> and
  \<open>m = 2^53\<close>. A rational \<open>x\<close> is a double when rounding leaves it unchanged.
\<close>

function bit_length :: "int \<Rightarrow> nat" where
  "bit_length n = (if n \<le> 0 then 0 else Suc (bit_length (n div 2)))"
  by pat_completeness auto
termination
  by (relation "measure nat") auto

declare bit_length.simps [simp del]

definition ilog2 :: "rat \<Rightarrow> int" where
  "ilog2 x =
     (let (a, b) = quotient_of x;
          k = int (bit_length a) - int (bit_length b)
      in if 2 powi k \<le> x then k else k - 1)"

definition round_half_even :: "rat \<Rightarrow> int" where
  "round_half_even z =
     (let f = \<lfloor>z\<rfloor>; d = z - of_int f
      in if d < 1/2 then f else if 1/2 < d then f + 1 else if even f then f else f + 1)"

definition quantum :: "rat \<Rightarrow> rat" where
  "quantum a = 2 powi (max (ilog2 a) (- 1022) - 52)"

definition round64 :: "rat \<Rightarrow> jsnum" where
  "round64 x =
     (if x = 0 then Fin 0
      else
        let a = \<bar>x\<bar>;
            e = max (ilog2 a) (- 1022);
            m = round_half_even (a / quantum a)
        in if 1024 \<le> e \<or> (e = 1023 \<and> m = 2 ^ 53) then (if 0 < x then PosInf else NegInf)
           else Fin (if 0 < x then of_int m * quantum a else - (of_int m * quantum a)))"

definition is_double :: "rat \<Rightarrow> bool" where
  "is_double x = (round64 x = Fin x)"

text \<open>Arithmetic on numbers, with the rules for \<^verbatim>\<open>NaN\<close> and the infinities.\<close>

fun num_neg :: "jsnum \<Rightarrow> jsnum" where
  "num_neg NaN = NaN"
| "num_neg NegInf = PosInf"
| "num_neg (Fin x) = Fin (- x)"
| "num_neg PosInf = NegInf"

fun num_add :: "jsnum \<Rightarrow> jsnum \<Rightarrow> jsnum" where
  "num_add NaN y = NaN"
| "num_add x NaN = NaN"
| "num_add (Fin x) (Fin y) = round64 (x + y)"
| "num_add (Fin x) y = y"
| "num_add x (Fin y) = x"
| "num_add x y = (if x = y then x else NaN)"

definition num_sub :: "jsnum \<Rightarrow> jsnum \<Rightarrow> jsnum" where
  "num_sub x y = num_add x (num_neg y)"

fun num_mul :: "jsnum \<Rightarrow> jsnum \<Rightarrow> jsnum" where
  "num_mul NaN y = NaN"
| "num_mul x NaN = NaN"
| "num_mul (Fin x) (Fin y) = round64 (x * y)"
| "num_mul (Fin x) y = (if x = 0 then NaN else if 0 < x then y else num_neg y)"
| "num_mul x (Fin y) = (if y = 0 then NaN else if 0 < y then x else num_neg x)"
| "num_mul x y = (if x = y then PosInf else NegInf)"

fun num_floor :: "jsnum \<Rightarrow> jsnum" where
  "num_floor (Fin x) = Fin (of_int \<lfloor>x\<rfloor>)"
| "num_floor x = x"

section \<open>The jitter object\<close>

definition INTERVAL_JITTER_DEFAULT_MAX_INTERVAL :: rat where
  "INTERVAL_JITTER_DEFAULT_MAX_INTERVAL = 1000"

definition INTERVAL_JITTER_MAX_INTERVAL :: rat where
  "INTERVAL_JITTER_MAX_INTERVAL = 2147483647"

text \<open>
  The fields of an instance. A timer field holds \<^verbatim>\<open>null\<close> (\<open>None\<close>) or the handle that
  \<^verbatim>\<open>setTimeout\<close> returned; handles are positive, hence truthy. \<^verbatim>\<open>randomInterval\<close> is
  \<^verbatim>\<open>undefined\<close> until the loop first assigns it.
\<close>

record jitter =
  callback :: cbval
  stopped :: bool
  minInterval :: jsval
  maxInterval :: jsval
  outerTimeoutTimer :: "nat option"
  innerTimeoutTimer :: "nat option"
  randomInterval :: jsval

definition setMinInterval :: "jsval \<Rightarrow> jitter \<Rightarrow> jitter" where
  "setMinInterval v s =
     (if (strict_neq v (Number (Fin 0)) \<and> \<not> ToBoolean v)
         \<or> js_lt v (Number (Fin 0))
         \<or> js_gt v (Number (Fin INTERVAL_JITTER_MAX_INTERVAL))
         \<or> js_gt v (maxInterval s)
      then s\<lparr>minInterval := Number (Fin 0)\<rparr>
      else s\<lparr>minInterval := v\<rparr>)"

definition setMaxInterval :: "jsval \<Rightarrow> jitter \<Rightarrow> jitter" where
  "setMaxInterval v s =
     (if (strict_neq v (Number (Fin 0)) \<and> \<not> ToBoolean v)
         \<or> js_lt v (Number (Fin 0))
         \<or> js_lt v (minInterval s)
      then s\<lparr>maxInterval := Number (Fin INTERVAL_JITTER_DEFAULT_MAX_INTERVAL)\<rparr>
      else if js_gt v (Number (Fin INTERVAL_JITTER_MAX_INTERVAL))
      then s\<lparr>maxInterval := Number (Fin INTERVAL_JITTER_MAX_INTERVAL)\<rparr>
      else s\<lparr>maxInterval := v\<rparr>)"

definition setCallback :: "cbval \<Rightarrow> jitter \<Rightarrow> jitter" where
  "setCallback c s = (if is_function c then s\<lparr>callback := c\<rparr> else s)"

text \<open>
  The options object of the constructor, with \<^const>\<open>Undefined\<close> for a property that is
  absent. A destructuring default replaces exactly the value \<^verbatim>\<open>undefined\<close>.
\<close>

record options =
  minInterval_opt :: jsval
  maxInterval_opt :: jsval

definition no_options :: options where
  "no_options = \<lparr>minInterval_opt = Undefined, maxInterval_opt = Undefined\<rparr>"

definition or_default :: "jsval \<Rightarrow> jsval \<Rightarrow> jsval" where
  "or_default v d = (if v = Undefined then d else v)"

text \<open>
  The constructor assigns the callback and the flag, calls the two setters in the order
  of the source (the minimum first, while \<^verbatim>\<open>this.maxInterval\<close> is still \<^verbatim>\<open>undefined\<close>),
  and then sets both timer fields to \<^verbatim>\<open>null\<close>.
\<close>

definition IntervalJitter :: "cbval \<Rightarrow> options \<Rightarrow> jitter" where
  "IntervalJitter cb obj =
     (let s0 = \<lparr>callback = cb, stopped = True, minInterval = Undefined,
                maxInterval = Undefined, outerTimeoutTimer = None,
                innerTimeoutTimer = None, randomInterval = Undefined\<rparr>;
          s1 = setMinInterval (or_default (minInterval_opt obj) (Number (Fin 0))) s0;
          s2 = setMaxInterval
                 (or_default (maxInterval_opt obj)
                    (Number (Fin INTERVAL_JITTER_DEFAULT_MAX_INTERVAL))) s1
      in s2\<lparr>outerTimeoutTimer := None, innerTimeoutTimer := None\<rparr>)"

section \<open>The host's timers and the loop\<close>

text \<open>
  The two functions that the source hands to \<^verbatim>\<open>setTimeout\<close>: the arrow function of
  \<^verbatim>\<open>run\<close> that calls the callback (\<open>Outer\<close>) and the closure \<^verbatim>\<open>loop\<close> (\<open>Loop\<close>).
\<close>

datatype task = Outer | Loop

text \<open>
  How a call of the callback ends: it returns a value or it throws. The source has no
  \<^verbatim>\<open>try\<close>, so an exception leaves the timer function at the call.
\<close>

datatype outcome = Returns jsval | Throws

text \<open>
  What an observer sees: the callback, a function \<open>f\<close>, was called and ended in some way;
  \<^verbatim>\<open>onCallbackExecuted\<close> was called with a value; \<^verbatim>\<open>setTimeout\<close> was called and gave
  out a handle for a function; a timer function ended with an uncaught \<^verbatim>\<open>TypeError\<close>
  (calling a callback that is not a function).
\<close>

datatype event = Invoked nat outcome | Hooked jsval | Scheduled nat task | Uncaught

text \<open>
  The instance together with the host: the table of pending timers (handle, function,
  delay argument), the next handle the host will give out, and the trace of events.
  Time is abstracted: any pending timer may be the next to fire.
\<close>

record world =
  inst :: jitter
  timers :: "(nat \<times> task \<times> jsval) list"
  next_timer :: nat
  trace :: "event list"

definition setTimeout :: "task \<Rightarrow> jsval \<Rightarrow> world \<Rightarrow> nat \<times> world" where
  "setTimeout t d w =
     (next_timer w,
      w\<lparr>timers := timers w @ [(next_timer w, t, d)], next_timer := Suc (next_timer w),
        trace := trace w @ [Scheduled (next_timer w) t]\<rparr>)"

text \<open>Clearing a handle that is not pending changes nothing.\<close>

definition clearTimeout :: "nat \<Rightarrow> world \<Rightarrow> world" where
  "clearTimeout h w = w\<lparr>timers := filter (\<lambda>e. fst e \<noteq> h) (timers w)\<rparr>"

definition onCallbackExecuted :: "jsval \<Rightarrow> world \<Rightarrow> world" where
  "onCallbackExecuted res w = w"

text \<open>
  The closure \<^verbatim>\<open>loop\<close>; \<open>r\<close> is the value that \<^verbatim>\<open>Math.random()\<close> returns, \<open>0 \<le> r < 1\<close>.
\<close>

definition loop :: "rat \<Rightarrow> world \<Rightarrow> world" where
  "loop r w =
     (if stopped (inst w) then w
      else
        let ri = Number
                   (num_add
                      (num_floor
                         (num_mul (Fin r)
                            (num_add
                               (num_sub (ToNumber (maxInterval (inst w)))
                                  (ToNumber (minInterval (inst w))))
                               (Fin 1))))
                      (ToNumber (minInterval (inst w))));
            w1 = w\<lparr>inst := (inst w)\<lparr>randomInterval := ri\<rparr>\<rparr>;
            (h, w2) = setTimeout Outer ri w1
        in w2\<lparr>inst := (inst w2)\<lparr>outerTimeoutTimer := Some h\<rparr>\<rparr>)"

definition run :: "rat \<Rightarrow> world \<Rightarrow> world" where
  "run r w = loop r (w\<lparr>inst := (inst w)\<lparr>stopped := False\<rparr>\<rparr>)"

text \<open>
  The arrow function that the outer timer runs. \<open>oc\<close> is how the call of the callback
  ends; a callback is modelled by that outcome, it does not call the jitter's methods.
  Calling a value that is not a function throws a \<^verbatim>\<open>TypeError\<close>. Either exception ends
  the timer function at line 161: the hook is not called and no timer is set.
\<close>

definition outer_fn :: "outcome \<Rightarrow> world \<Rightarrow> world" where
  "outer_fn oc w =
     (case callback (inst w) of
        NotCallable v \<Rightarrow> w\<lparr>trace := trace w @ [Uncaught]\<rparr>
      | Callable f \<Rightarrow>
          (case oc of
             Throws \<Rightarrow> w\<lparr>trace := trace w @ [Invoked f Throws]\<rparr>
           | Returns res \<Rightarrow>
               let w1 = w\<lparr>trace := trace w @ [Invoked f (Returns res)]\<rparr>;
                   w2 = onCallbackExecuted res (w1\<lparr>trace := trace w1 @ [Hooked res]\<rparr>);
                   (h, w3) = setTimeout Loop Undefined w2
               in w3\<lparr>inst := (inst w3)\<lparr>innerTimeoutTimer := Some h\<rparr>\<rparr>))"

definition stop :: "world \<Rightarrow> world" where
  "stop w =
     (let w1 = (case outerTimeoutTimer (inst w) of
                  Some h \<Rightarrow> clearTimeout h w | None \<Rightarrow> w);
          w2 = (case innerTimeoutTimer (inst w1) of
                  Some h \<Rightarrow> clearTimeout h w1 | None \<Rightarrow> w1)
      in w2\<lparr>inst := (inst w2)\<lparr>stopped := True\<rparr>\<rparr>)"

text \<open>
  The host fires the pending timer \<open>h\<close>: the timer leaves the table and its function
  runs. Firing a handle that is not pending does nothing.
\<close>

definition fire :: "nat \<Rightarrow> rat \<Rightarrow> outcome \<Rightarrow> world \<Rightarrow> world" where
  "fire h r oc w =
     (case map_of (timers w) h of
        None \<Rightarrow> w
      | Some (t, d) \<Rightarrow>
          (case t of
             Outer \<Rightarrow> outer_fn oc (clearTimeout h w)
           | Loop \<Rightarrow> loop r (clearTimeout h w)))"

text \<open>A freshly constructed instance in a host with no timer; handles start at 1.\<close>

definition new_world :: "cbval \<Rightarrow> options \<Rightarrow> world" where
  "new_world cb obj =
     \<lparr>inst = IntervalJitter cb obj, timers = [], next_timer = 1, trace = []\<rparr>"

text \<open>
  What can happen to an instance: a call of one of its methods, or the host firing a
  timer. The rationals stand for the results of \<^verbatim>\<open>Math.random()\<close>.
\<close>

datatype call =
    Run rat
  | Stop
  | SetMinInterval jsval
  | SetMaxInterval jsval
  | SetCallback cbval
  | Fire nat rat outcome

fun exec :: "call \<Rightarrow> world \<Rightarrow> world" where
  "exec (Run r) w = run r w"
| "exec Stop w = stop w"
| "exec (SetMinInterval v) w = w\<lparr>inst := setMinInterval v (inst w)\<rparr>"
| "exec (SetMaxInterval v) w = w\<lparr>inst := setMaxInterval v (inst w)\<rparr>"
| "exec (SetCallback c) w = w\<lparr>inst := setCallback c (inst w)\<rparr>"
| "exec (Fire h r oc) w = fire h r oc w"

fun random_ok :: "call \<Rightarrow> bool" where
  "random_ok (Run r) = (0 \<le> r \<and> r < 1)"
| "random_ok (Fire h r oc) = (0 \<le> r \<and> r < 1)"
| "random_ok c = True"

fun execs :: "call list \<Rightarrow> world \<Rightarrow> world" where
  "execs [] w = w"
| "execs (c # cs) w = execs cs (exec c w)"

text \<open>The states of an instance: constructed, then any number of calls and firings.\<close>

inductive reachable :: "world \<Rightarrow> bool" where
  new: "reachable (new_world cb obj)"
| call: "reachable w \<Longrightarrow> random_ok c \<Longrightarrow> reachable (exec c w)"

section \<open>Reading a trace\<close>

fun is_Invoked :: "event \<Rightarrow> bool" where
  "is_Invoked (Invoked f oc) = True"
| "is_Invoked e = False"

fun is_Returned :: "event \<Rightarrow> bool" where
  "is_Returned (Invoked f (Returns v)) = True"
| "is_Returned e = False"

fun is_Hooked :: "event \<Rightarrow> bool" where
  "is_Hooked (Hooked v) = True"
| "is_Hooked e = False"

text \<open>
  A trace is \<open>paired\<close> when every call of the callback that returned is followed at once
  by one call of the hook with the value returned, and the hook is called nowhere else
  (in particular not after a call that threw).
\<close>

fun paired :: "event list \<Rightarrow> bool" where
  "paired [] = True"
| "paired (Invoked f (Returns v) # Hooked v' # es) = (v = v' \<and> paired es)"
| "paired (Invoked f (Returns v) # es) = False"
| "paired (Hooked v # es) = False"
| "paired (e # es) = paired es"

text \<open>
  Use of an instance with one loop at a time: \<^verbatim>\<open>run\<close> is only called on a stopped
  instance. Then at most one timer is pending, and the instance holds its handle.
\<close>

fun is_Run :: "call \<Rightarrow> bool" where
  "is_Run (Run r) = True"
| "is_Run c = False"

fun guarded :: "call list \<Rightarrow> world \<Rightarrow> bool" where
  "guarded [] w = True"
| "guarded (c # cs) w = ((is_Run c \<longrightarrow> stopped (inst w)) \<and> guarded cs (exec c w))"

definition one_loop :: "world \<Rightarrow> bool" where
  "one_loop w =
     (timers w = []
      \<or> (\<not> stopped (inst w)
          \<and> (\<exists>h d. (timers w = [(h, Outer, d)] \<and> outerTimeoutTimer (inst w) = Some h)
                  \<or> (timers w = [(h, Loop, d)] \<and> innerTimeoutTimer (inst w) = Some h))))"

section \<open>Facts about the setters\<close>

lemmas cmp_defs = js_lt_def js_gt_def js_le_def strict_neq_def

lemmas const_defs = INTERVAL_JITTER_DEFAULT_MAX_INTERVAL_def INTERVAL_JITTER_MAX_INTERVAL_def

lemmas ctor_defs = IntervalJitter_def or_default_def no_options_def

text \<open>Whatever it is given, \<^const>\<open>setMinInterval\<close> leaves a minimum that is not below zero.\<close>

lemma setMinInterval_nonneg: "js_le (Number (Fin 0)) (minInterval (setMinInterval v s))"
proof (cases v)
  case (Number n)
  then show ?thesis
    by (cases n) (auto simp: setMinInterval_def cmp_defs const_defs)
next
  case (Boolean b)
  then show ?thesis by (auto simp: setMinInterval_def cmp_defs const_defs)
qed (auto simp: setMinInterval_def cmp_defs const_defs)

lemma minInterval_setMaxInterval [simp]: "minInterval (setMaxInterval v s) = minInterval s"
  by (simp add: setMaxInterval_def)

lemma maxInterval_setMinInterval [simp]: "maxInterval (setMinInterval v s) = maxInterval s"
  by (simp add: setMinInterval_def)

lemma minInterval_setCallback [simp]: "minInterval (setCallback c s) = minInterval s"
  by (simp add: setCallback_def)

lemma maxInterval_setCallback [simp]: "maxInterval (setCallback c s) = maxInterval s"
  by (simp add: setCallback_def)

lemma inst_clearTimeout [simp]: "inst (clearTimeout h w) = inst w"
  by (simp add: clearTimeout_def)

lemma minInterval_loop [simp]: "minInterval (inst (loop r w)) = minInterval (inst w)"
  by (simp add: loop_def setTimeout_def Let_def)

lemma minInterval_run [simp]: "minInterval (inst (run r w)) = minInterval (inst w)"
  by (simp add: run_def)

lemma minInterval_stop [simp]: "minInterval (inst (stop w)) = minInterval (inst w)"
  by (simp add: stop_def Let_def split: option.split)

lemma minInterval_outer_fn [simp]: "minInterval (inst (outer_fn oc w)) = minInterval (inst w)"
  by (simp add: outer_fn_def setTimeout_def onCallbackExecuted_def Let_def
      split: cbval.split outcome.split)

lemma minInterval_fire [simp]: "minInterval (inst (fire h r oc w)) = minInterval (inst w)"
  by (simp add: fire_def split: option.split task.split prod.split)

lemma minInterval_new_world: "js_le (Number (Fin 0)) (minInterval (inst (new_world cb obj)))"
  by (simp add: new_world_def IntervalJitter_def Let_def setMinInterval_nonneg)

lemma minInterval_exec:
  "js_le (Number (Fin 0)) (minInterval (inst w)) \<Longrightarrow>
   js_le (Number (Fin 0)) (minInterval (inst (exec c w)))"
  by (cases c) (simp_all add: setMinInterval_nonneg)

text \<open>The part of the bounds' invariant that every instance has: the minimum is at least zero.\<close>

lemma reachable_minInterval_nonneg:
  "reachable w \<Longrightarrow> js_le (Number (Fin 0)) (minInterval (inst w))"
  by (induction rule: reachable.induct) (simp_all add: minInterval_new_world minInterval_exec)

lemma setMinInterval_accepts:
  assumes "0 \<le> x" "x \<le> INTERVAL_JITTER_MAX_INTERVAL" "js_le (Number (Fin x)) (maxInterval s)"
  shows "minInterval (setMinInterval (Number (Fin x)) s) = Number (Fin x)"
  using assms by (auto simp: setMinInterval_def cmp_defs)

lemma setMaxInterval_accepts:
  assumes "js_le (Number (Fin 0)) (minInterval s)" "js_le (minInterval s) (Number (Fin x))"
    "x \<le> INTERVAL_JITTER_MAX_INTERVAL"
  shows "maxInterval (setMaxInterval (Number (Fin x)) s) = Number (Fin x)"
proof -
  obtain m where m: "ToNumber (minInterval s) = Fin m" "0 \<le> m" "m \<le> x"
    using assms(1,2) by (cases "ToNumber (minInterval s)") (auto simp: cmp_defs)
  then show ?thesis
    using assms(3) by (auto simp: setMaxInterval_def cmp_defs)
qed




lemma maxInterval_loop [simp]: "maxInterval (inst (loop r w)) = maxInterval (inst w)"
  by (simp add: loop_def setTimeout_def Let_def)

lemma maxInterval_run [simp]: "maxInterval (inst (run r w)) = maxInterval (inst w)"
  by (simp add: run_def)

lemma maxInterval_stop [simp]: "maxInterval (inst (stop w)) = maxInterval (inst w)"
  by (simp add: stop_def Let_def split: option.split)

lemma maxInterval_outer_fn [simp]: "maxInterval (inst (outer_fn oc w)) = maxInterval (inst w)"
  by (simp add: outer_fn_def setTimeout_def onCallbackExecuted_def Let_def
      split: cbval.split outcome.split)

lemma maxInterval_fire [simp]: "maxInterval (inst (fire h r oc w)) = maxInterval (inst w)"
  by (simp add: fire_def split: option.split task.split prod.split)


lemma half_not_int: "(1/2 :: rat) \<notin> \<int>"
proof
  assume "(1/2 :: rat) \<in> \<int>"
  then obtain k :: int where "(1/2 :: rat) = of_int k" by (auto elim: Ints_cases)
  then have "(1 :: rat) = of_int (2 * k)" by simp
  then have "(1 :: int) = 2 * k" by (simp only: of_int_eq_iff [symmetric, where 'a = rat] of_int_1)
  then show False by presburger
qed

section \<open>The bounds after construction\<close>

text \<open>
  Claim C1 (invariant \<open>0 \<le> minInterval \<le> maxInterval \<le> 2147483647\<close> after construction
  and after every setter call). The constructor calls \<^const>\<open>setMinInterval\<close> while
  \<^verbatim>\<open>this.maxInterval\<close> is still \<^verbatim>\<open>undefined\<close>, so the check against the maximum never
  rejects: \<^verbatim>\<open>new IntervalJitter(cb, {minInterval: 5000})\<close> has \<open>minInterval = 5000\<close> and
  \<open>maxInterval = 1000\<close>, and the minimum is above the maximum.
\<close>

theorem constructor_min_above_max:
  "minInterval (IntervalJitter (Callable 0)
      \<lparr>minInterval_opt = Number (Fin 5000), maxInterval_opt = Undefined\<rparr>) = Number (Fin 5000)
   \<and> maxInterval (IntervalJitter (Callable 0)
      \<lparr>minInterval_opt = Number (Fin 5000), maxInterval_opt = Undefined\<rparr>) = Number (Fin 1000)
   \<and> \<not> js_le
        (minInterval (IntervalJitter (Callable 0)
           \<lparr>minInterval_opt = Number (Fin 5000), maxInterval_opt = Undefined\<rparr>))
        (maxInterval (IntervalJitter (Callable 0)
           \<lparr>minInterval_opt = Number (Fin 5000), maxInterval_opt = Undefined\<rparr>))"
  by (simp add: ctor_defs setMinInterval_def setMaxInterval_def cmp_defs const_defs)

text \<open>
  The same invariant breaks a second way: \<^const>\<open>setMaxInterval\<close> falls back to the default
  1000 without looking at the minimum, here 2000.
\<close>

lemma setMaxInterval_default_below_min:
  "minInterval (setMaxInterval (Number (Fin (- 1)))
      (IntervalJitter (Callable 0)
         \<lparr>minInterval_opt = Number (Fin 2000), maxInterval_opt = Number (Fin 3000)\<rparr>))
     = Number (Fin 2000)
   \<and> maxInterval (setMaxInterval (Number (Fin (- 1)))
      (IntervalJitter (Callable 0)
         \<lparr>minInterval_opt = Number (Fin 2000), maxInterval_opt = Number (Fin 3000)\<rparr>))
     = Number (Fin 1000)"
  by (simp add: ctor_defs setMinInterval_def setMaxInterval_def cmp_defs const_defs)

section \<open>\<^verbatim>\<open>setMinInterval\<close>\<close>




section \<open>\<^verbatim>\<open>setMaxInterval\<close>\<close>




section \<open>The callback\<close>

text \<open>
  Claim C5, amended. The constructor stores its callback argument as it is, whether or not
  it is a function: only \<^const>\<open>setCallback\<close> tests \<^verbatim>\<open>typeof callback === "function"\<close>,
  and there is no default callback.
\<close>

theorem constructor_stores_callback: "callback (IntervalJitter cb obj) = cb"
  by (simp add: IntervalJitter_def setMinInterval_def setMaxInterval_def Let_def)

theorem constructor_stores_callback_witness:
  "callback (IntervalJitter (NotCallable (Number (Fin 42))) no_options)
     = NotCallable (Number (Fin 42))"
  using constructor_stores_callback [of "NotCallable (Number (Fin 42))" no_options] by simp

text \<open>
  The claim as stated fails at \<^verbatim>\<open>new IntervalJitter(undefined)\<close>: the value stored is no
  function, and it does not behave as a callback that does nothing. When the first timer
  fires, the call throws; the hook is not called and no next iteration is scheduled,
  although the instance still counts as running.
\<close>

theorem constructor_non_function_not_noop:
  "is_function (callback (IntervalJitter (NotCallable Undefined) no_options)) = False
   \<and> execs [Run (1/2), Fire 1 (1/2) (Returns Undefined)] (new_world (NotCallable Undefined) no_options)
     = \<lparr>inst = \<lparr>callback = NotCallable Undefined, stopped = False,
                 minInterval = Number (Fin 0), maxInterval = Number (Fin 1000),
                 outerTimeoutTimer = Some 1, innerTimeoutTimer = None,
                 randomInterval = Number (Fin 500)\<rparr>,
         timers = [], next_timer = 2, trace = [Scheduled 1 Outer, Uncaught]\<rparr>"
  by code_simp

text \<open>
  Claim C7. \<^verbatim>\<open>setCallback(x)\<close> replaces the stored callback when \<open>x\<close> is a function and
  changes nothing when it is not.
\<close>

theorem setCallback_cases:
  "(is_function c \<longrightarrow> setCallback c s = s\<lparr>callback := c\<rparr>)
   \<and> (\<not> is_function c \<longrightarrow> setCallback c s = s)"
  by (simp add: setCallback_def)

theorem setCallback_cases_witness:
  "callback (setCallback (Callable 7) (IntervalJitter (Callable 0) no_options)) = Callable 7
   \<and> callback (setCallback (NotCallable (Number (Fin 42)))
        (IntervalJitter (Callable 0) no_options)) = Callable 0"
  using setCallback_cases [of "Callable 7" "IntervalJitter (Callable 0) no_options"]
    setCallback_cases [of "NotCallable (Number (Fin 42))"
      "IntervalJitter (Callable 0) no_options"]
  by (simp add: IntervalJitter_def setMinInterval_def setMaxInterval_def Let_def)

section \<open>Fractional bounds\<close>

text \<open>
  Claim C10. The setters neither round nor truncate: on every instance, a number \<open>x\<close> that
  is not an integer and passes the checks of a setter (\<open>0 \<le> x \<le> maxInterval\<close> and
  \<open>x \<le> 2147483647\<close> for the minimum, \<open>minInterval \<le> x \<le> 2147483647\<close> for the maximum)
  is stored unchanged.
\<close>

theorem setters_keep_fractions:
  assumes "reachable w" "x \<notin> \<int>"
  shows "(0 \<le> x \<and> x \<le> INTERVAL_JITTER_MAX_INTERVAL
          \<and> js_le (Number (Fin x)) (maxInterval (inst w))
      \<longrightarrow> minInterval (setMinInterval (Number (Fin x)) (inst w)) = Number (Fin x))
    \<and> (js_le (minInterval (inst w)) (Number (Fin x)) \<and> x \<le> INTERVAL_JITTER_MAX_INTERVAL
      \<longrightarrow> maxInterval (setMaxInterval (Number (Fin x)) (inst w)) = Number (Fin x))"
  using reachable_minInterval_nonneg [OF assms(1)]
  by (simp add: setMinInterval_accepts setMaxInterval_accepts)

theorem setters_keep_fractions_witness:
  "reachable (new_world (Callable 0) no_options) \<and> (1/2 :: rat) \<notin> \<int>
   \<and> minInterval (setMinInterval (Number (Fin (1/2))) (inst (new_world (Callable 0) no_options)))
       = Number (Fin (1/2))
   \<and> maxInterval (setMaxInterval (Number (Fin (1/2))) (inst (new_world (Callable 0) no_options)))
       = Number (Fin (1/2))"
proof -
  have r: "reachable (new_world (Callable 0) no_options)" by (rule reachable.new)
  show ?thesis
    using r half_not_int setters_keep_fractions [OF r half_not_int]
    by (simp add: new_world_def ctor_defs setMinInterval_def setMaxInterval_def cmp_defs
        const_defs)
qed

section \<open>The drawn delay\<close>





















text \<open>
  The rounding is part of the result: with the bounds 0 and 1000 and the draw
  \<open>r = 0.022977022977022976\<close> the product \<open>r * 1001\<close> rounds up to 23, which is the delay,
  while the floor of the exact product is 22.
\<close>

lemma loop_draw_rounds:
  "is_double (25869828029351 / 1125899906842624)
   \<and> randomInterval (inst (run (25869828029351 / 1125899906842624)
        (new_world (Callable 0) no_options))) = Number (Fin 23)
   \<and> \<lfloor>25869828029351 / 1125899906842624 * (1001 :: rat)\<rfloor> = 22"
  by code_simp


section \<open>The hook\<close>

lemma paired_append: "paired xs \<Longrightarrow> paired ys \<Longrightarrow> paired (xs @ ys)"
  by (induction xs rule: paired.induct) simp_all

lemma paired_counts:
  "paired es \<Longrightarrow> length (filter is_Hooked es) = length (filter is_Returned es)"
  by (induction es rule: paired.induct) simp_all

lemma trace_clearTimeout [simp]: "trace (clearTimeout h w) = trace w"
  by (simp add: clearTimeout_def)

lemma next_timer_clearTimeout [simp]: "next_timer (clearTimeout h w) = next_timer w"
  by (simp add: clearTimeout_def)

lemma trace_loop:
  "trace (loop r w) = trace w @ (if stopped (inst w) then [] else [Scheduled (next_timer w) Outer])"
  by (simp add: loop_def setTimeout_def Let_def)

lemma trace_outer_fn:
  "trace (outer_fn oc w) = trace w @
     (case callback (inst w) of
        Callable f \<Rightarrow>
          (case oc of
             Returns res \<Rightarrow>
               [Invoked f (Returns res), Hooked res, Scheduled (next_timer w) Loop]
           | Throws \<Rightarrow> [Invoked f Throws])
      | NotCallable v \<Rightarrow> [Uncaught])"
  by (simp add: outer_fn_def setTimeout_def onCallbackExecuted_def Let_def
      split: cbval.split outcome.split)

lemma trace_stop [simp]: "trace (stop w) = trace w"
  by (simp add: stop_def Let_def split: option.split)

lemma paired_exec: "paired (trace w) \<Longrightarrow> paired (trace (exec c w))"
proof (cases c)
  case (Fire h r oc)
  assume p: "paired (trace w)"
  show ?thesis
  proof (cases "map_of (timers w) h")
    case None
    with p Fire show ?thesis by (simp add: fire_def)
  next
    case (Some td)
    with p Fire show ?thesis
      by (cases td; cases "fst td")
         (auto simp: fire_def trace_loop trace_outer_fn intro!: paired_append
            split: cbval.split outcome.split)
  qed
qed (auto simp: run_def trace_loop intro!: paired_append)

lemma reachable_paired: "reachable w \<Longrightarrow> paired (trace w)"
  by (induction rule: reachable.induct) (simp_all add: new_world_def paired_exec)

text \<open>
  Claim C8, amended. When the outer timer fires on an instance whose callback is a
  function and the callback returns, the trace grows by exactly three events: the call,
  then \<^verbatim>\<open>onCallbackExecuted\<close> once with the value returned, and only then the scheduling
  of the next iteration. When the callback throws, the trace grows by the call alone and
  no timer is set: neither the hook nor the next iteration follows. The hook of the
  source does nothing. On every instance the trace is \<^const>\<open>paired\<close>, so the hook has
  been called as many times as the callback has returned.
\<close>

theorem hook_follows_callback:
  "(map_of (timers w) h = Some (Outer, d) \<and> callback (inst w) = Callable f \<longrightarrow>
      trace (fire h r (Returns res) w)
        = trace w @ [Invoked f (Returns res), Hooked res, Scheduled (next_timer w) Loop]
      \<and> trace (fire h r Throws w) = trace w @ [Invoked f Throws]
      \<and> timers (fire h r Throws w) = filter (\<lambda>e. fst e \<noteq> h) (timers w))
   \<and> onCallbackExecuted res w = w
   \<and> (reachable w \<longrightarrow> paired (trace w)
        \<and> length (filter is_Hooked (trace w)) = length (filter is_Returned (trace w)))"
proof (intro conjI impI)
  assume a: "map_of (timers w) h = Some (Outer, d) \<and> callback (inst w) = Callable f"
  then show "trace (fire h r (Returns res) w)
        = trace w @ [Invoked f (Returns res), Hooked res, Scheduled (next_timer w) Loop]"
    by (simp add: fire_def trace_outer_fn)
  from a show "trace (fire h r Throws w) = trace w @ [Invoked f Throws]"
    by (simp add: fire_def trace_outer_fn)
  from a show "timers (fire h r Throws w) = filter (\<lambda>e. fst e \<noteq> h) (timers w)"
    by (simp add: fire_def outer_fn_def clearTimeout_def)
next
  show "onCallbackExecuted res w = w"
    by (simp add: onCallbackExecuted_def)
next
  assume "reachable w"
  then show "paired (trace w)" by (rule reachable_paired)
  then show "length (filter is_Hooked (trace w)) = length (filter is_Returned (trace w))"
    by (rule paired_counts)
qed

theorem hook_follows_callback_witness:
  "trace (execs [Run (1/2), Fire 1 (1/2) (Returns (Number (Fin 7)))]
       (new_world (Callable 0) no_options))
     = [Scheduled 1 Outer, Invoked 0 (Returns (Number (Fin 7))), Hooked (Number (Fin 7)),
        Scheduled 2 Loop]
   \<and> reachable (execs [Run (1/2), Fire 1 (1/2) (Returns (Number (Fin 7)))]
       (new_world (Callable 0) no_options))
   \<and> length (filter is_Hooked (trace (execs [Run (1/2), Fire 1 (1/2) (Returns (Number (Fin 7)))]
       (new_world (Callable 0) no_options)))) = 1
   \<and> length (filter is_Returned (trace (execs [Run (1/2), Fire 1 (1/2) (Returns (Number (Fin 7)))]
       (new_world (Callable 0) no_options)))) = 1"
proof -
  let ?init = "new_world (Callable 0) no_options"
  let ?w = "run (1/2) ?init"
  let ?v = "fire 1 (1/2) (Returns (Number (Fin 7))) ?w"
  have r0: "reachable ?init" by (rule reachable.new)
  have r1: "reachable (exec (Run (1/2)) ?init)"
    using r0 by (rule reachable.call) simp
  have r2: "reachable (exec (Fire 1 (1/2) (Returns (Number (Fin 7)))) (exec (Run (1/2)) ?init))"
    using r1 by (rule reachable.call) simp
  have e: "execs [Run (1/2), Fire 1 (1/2) (Returns (Number (Fin 7)))] ?init = ?v"
    by simp
  have r: "reachable ?v" using r2 by simp
  have w: "?w = \<lparr>inst = \<lparr>callback = Callable 0, stopped = False,
                 minInterval = Number (Fin 0), maxInterval = Number (Fin 1000),
                 outerTimeoutTimer = Some 1, innerTimeoutTimer = None,
                 randomInterval = Number (Fin 500)\<rparr>,
         timers = [(1, Outer, Number (Fin 500))], next_timer = 2, trace = [Scheduled 1 Outer]\<rparr>"
    by code_simp
  have a: "map_of (timers ?w) 1 = Some (Outer, Number (Fin 500)) \<and> callback (inst ?w) = Callable 0"
    unfolding w by simp
  from hook_follows_callback [of ?w 1 "Number (Fin 500)" 0 "1/2" "Number (Fin 7)"] a
  have "trace ?v = trace ?w @ [Invoked 0 (Returns (Number (Fin 7))), Hooked (Number (Fin 7)),
      Scheduled (next_timer ?w) Loop]"
    by blast
  then have t: "trace ?v = [Scheduled 1 Outer, Invoked 0 (Returns (Number (Fin 7))),
      Hooked (Number (Fin 7)), Scheduled 2 Loop]"
    by (simp add: w)
  from hook_follows_callback [of ?v 1 Undefined 0 "1/2" Undefined] r
  have c: "length (filter is_Hooked (trace ?v)) = length (filter is_Returned (trace ?v))"
    by blast
  have "length (filter is_Returned (trace ?v)) = 1"
    unfolding t by simp
  with c t r show ?thesis unfolding e by simp
qed

text \<open>
  The claim as stated (after N invocations of the callback the hook has been called N
  times) fails when the callback throws: the callback has been invoked once, the hook
  not at all, and no timer is left to continue the loop.
\<close>

theorem hook_skipped_when_callback_throws:
  "trace (execs [Run (1/2), Fire 1 (1/2) Throws] (new_world (Callable 0) no_options))
     = [Scheduled 1 Outer, Invoked 0 Throws]
   \<and> length (filter is_Invoked
        (trace (execs [Run (1/2), Fire 1 (1/2) Throws] (new_world (Callable 0) no_options)))) = 1
   \<and> length (filter is_Hooked
        (trace (execs [Run (1/2), Fire 1 (1/2) Throws] (new_world (Callable 0) no_options)))) = 0
   \<and> timers (execs [Run (1/2), Fire 1 (1/2) Throws] (new_world (Callable 0) no_options)) = []"
  by code_simp

section \<open>What each method changes\<close>

lemma timers_stop:
  "timers (stop w) =
     filter (\<lambda>e. Some (fst e) \<noteq> outerTimeoutTimer (inst w)
                \<and> Some (fst e) \<noteq> innerTimeoutTimer (inst w)) (timers w)"
  by (auto simp: stop_def clearTimeout_def Let_def split: option.split intro: filter_cong)

lemma inst_stop: "inst (stop w) = (inst w)\<lparr>stopped := True\<rparr>"
  by (simp add: stop_def Let_def split: option.split)

lemma next_timer_stop: "next_timer (stop w) = next_timer w"
  by (simp add: stop_def Let_def split: option.split)

text \<open>
  Claim C9. \<^const>\<open>setMinInterval\<close> changes the field \<^verbatim>\<open>minInterval\<close> only,
  \<^const>\<open>setMaxInterval\<close> the field \<^verbatim>\<open>maxInterval\<close> only, \<^const>\<open>setCallback\<close> the field
  \<^verbatim>\<open>callback\<close> only. \<^const>\<open>stop\<close> changes no field of the instance but the flag, and in
  the host it removes the timers of the two handles and nothing else. The bounds and the
  callback are the same after a stop followed by a run.
\<close>

theorem mutators_frame:
  "setMinInterval v s = s\<lparr>minInterval := minInterval (setMinInterval v s)\<rparr>
   \<and> setMaxInterval v s = s\<lparr>maxInterval := maxInterval (setMaxInterval v s)\<rparr>
   \<and> setCallback c s = s\<lparr>callback := callback (setCallback c s)\<rparr>
   \<and> inst (stop w) = (inst w)\<lparr>stopped := True\<rparr>
   \<and> timers (stop w) =
       filter (\<lambda>e. Some (fst e) \<noteq> outerTimeoutTimer (inst w)
                  \<and> Some (fst e) \<noteq> innerTimeoutTimer (inst w)) (timers w)
   \<and> next_timer (stop w) = next_timer w
   \<and> trace (stop w) = trace w
   \<and> minInterval (inst (run r (stop w))) = minInterval (inst w)
   \<and> maxInterval (inst (run r (stop w))) = maxInterval (inst w)
   \<and> callback (inst (run r (stop w))) = callback (inst w)"
proof (intro conjI)
  show "setMinInterval v s = s\<lparr>minInterval := minInterval (setMinInterval v s)\<rparr>"
    by (simp add: setMinInterval_def)
  show "setMaxInterval v s = s\<lparr>maxInterval := maxInterval (setMaxInterval v s)\<rparr>"
    by (simp add: setMaxInterval_def)
  show "setCallback c s = s\<lparr>callback := callback (setCallback c s)\<rparr>"
    by (simp add: setCallback_def)
  show "inst (stop w) = (inst w)\<lparr>stopped := True\<rparr>"
    by (rule inst_stop)
  show "timers (stop w) =
       filter (\<lambda>e. Some (fst e) \<noteq> outerTimeoutTimer (inst w)
                  \<and> Some (fst e) \<noteq> innerTimeoutTimer (inst w)) (timers w)"
    by (rule timers_stop)
  show "next_timer (stop w) = next_timer w"
    by (rule next_timer_stop)
  show "trace (stop w) = trace w"
    by simp
  show "minInterval (inst (run r (stop w))) = minInterval (inst w)"
    by simp
  show "maxInterval (inst (run r (stop w))) = maxInterval (inst w)"
    by (simp add: run_def loop_def setTimeout_def Let_def inst_stop)
  show "callback (inst (run r (stop w))) = callback (inst w)"
    by (simp add: run_def loop_def setTimeout_def Let_def inst_stop)
qed

theorem mutators_frame_witness:
  "execs [Run (1/2), SetMinInterval (Number (Fin 5)), Stop] (new_world (Callable 0) no_options)
     = \<lparr>inst = \<lparr>callback = Callable 0, stopped = True,
                 minInterval = Number (Fin 5), maxInterval = Number (Fin 1000),
                 outerTimeoutTimer = Some 1, innerTimeoutTimer = None,
                 randomInterval = Number (Fin 500)\<rparr>,
         timers = [], next_timer = 2, trace = [Scheduled 1 Outer]\<rparr>"
proof -
  let ?a = "run (1/2) (new_world (Callable 0) no_options)"
  let ?b = "?a\<lparr>inst := setMinInterval (Number (Fin 5)) (inst ?a)\<rparr>"
  have a: "?a = \<lparr>inst = \<lparr>callback = Callable 0, stopped = False,
                 minInterval = Number (Fin 0), maxInterval = Number (Fin 1000),
                 outerTimeoutTimer = Some 1, innerTimeoutTimer = None,
                 randomInterval = Number (Fin 500)\<rparr>,
         timers = [(1, Outer, Number (Fin 500))], next_timer = 2, trace = [Scheduled 1 Outer]\<rparr>"
    by code_simp
  have m: "minInterval (setMinInterval (Number (Fin 5)) (inst ?a)) = Number (Fin 5)"
    unfolding a by (simp add: setMinInterval_def cmp_defs const_defs)
  note f = mutators_frame [where v = "Number (Fin 5)" and s = "inst ?a" and w = ?b]
  from f have "setMinInterval (Number (Fin 5)) (inst ?a)
      = (inst ?a)\<lparr>minInterval := minInterval (setMinInterval (Number (Fin 5)) (inst ?a))\<rparr>"
    by blast
  then have b: "inst ?b = (inst ?a)\<lparr>minInterval := Number (Fin 5)\<rparr>"
    by (simp add: m)
  from f have "inst (stop ?b) = (inst ?b)\<lparr>stopped := True\<rparr>"
    and "timers (stop ?b) =
       filter (\<lambda>e. Some (fst e) \<noteq> outerTimeoutTimer (inst ?b)
                  \<and> Some (fst e) \<noteq> innerTimeoutTimer (inst ?b)) (timers ?b)"
    and "next_timer (stop ?b) = next_timer ?b" and "trace (stop ?b) = trace ?b"
    by blast+
  then have "stop ?b = \<lparr>inst = \<lparr>callback = Callable 0, stopped = True,
                 minInterval = Number (Fin 5), maxInterval = Number (Fin 1000),
                 outerTimeoutTimer = Some 1, innerTimeoutTimer = None,
                 randomInterval = Number (Fin 500)\<rparr>,
         timers = [], next_timer = 2, trace = [Scheduled 1 Outer]\<rparr>"
    unfolding b unfolding a by (cases "stop ?b") simp
  then show ?thesis by simp
qed

section \<open>Stopping\<close>

text \<open>
  Claim C4 (after \<^verbatim>\<open>stop()\<close> the callback is not called again until the next \<^verbatim>\<open>run()\<close>).
  Two calls of \<^verbatim>\<open>run()\<close> without a \<^verbatim>\<open>stop()\<close> between them start two loops, and the
  field \<^verbatim>\<open>outerTimeoutTimer\<close> keeps the handle of the second only. \<^verbatim>\<open>stop()\<close> then
  leaves the timer of the first loop pending, and the function of that timer calls the
  callback without looking at the flag.
\<close>

theorem callback_after_stop_double_run:
  "stopped (inst (execs [Run (1/2), Run (1/2), Stop] (new_world (Callable 0) no_options)))
   \<and> trace (execs [Run (1/2), Run (1/2), Stop] (new_world (Callable 0) no_options))
       = [Scheduled 1 Outer, Scheduled 2 Outer]
   \<and> timers (execs [Run (1/2), Run (1/2), Stop] (new_world (Callable 0) no_options))
       = [(1, Outer, Number (Fin 500))]
   \<and> trace (execs [Run (1/2), Run (1/2), Stop, Fire 1 (1/2) (Returns Undefined)]
        (new_world (Callable 0) no_options))
       = [Scheduled 1 Outer, Scheduled 2 Outer, Invoked 0 (Returns Undefined),
          Hooked Undefined, Scheduled 3 Loop]"
  by code_simp


text \<open>
  With one loop at a time the property holds: after \<^verbatim>\<open>stop()\<close> no timer is pending, and
  nothing but a \<^verbatim>\<open>run()\<close> adds to the trace.
\<close>

lemma one_loop_new: "one_loop (new_world cb obj)"
  by (simp add: one_loop_def new_world_def)

lemma one_loop_stop: "one_loop w \<Longrightarrow> timers (stop w) = []"
  by (auto simp: one_loop_def timers_stop)

lemma stopped_stop: "stopped (inst (stop w))"
  by (simp add: inst_stop)

lemma one_loop_run:
  assumes "one_loop w" "stopped (inst w)"
  shows "one_loop (run r w)"
proof -
  have "timers w = []" using assms by (auto simp: one_loop_def)
  then show ?thesis
    by (simp add: one_loop_def run_def loop_def setTimeout_def Let_def)
qed

lemma one_loop_fire:
  assumes "one_loop w"
  shows "one_loop (fire h r oc w)"
proof (cases "map_of (timers w) h")
  case None
  then show ?thesis using assms by (simp add: fire_def)
next
  case (Some td)
  then have ne: "timers w \<noteq> []" by auto
  with assms obtain h' t d where w: "timers w = [(h', t, d)]" "\<not> stopped (inst w)"
    by (auto simp: one_loop_def)
  with Some have h: "h' = h" "td = (t, d)" by (auto split: if_splits)
  have c: "timers (clearTimeout h w) = []" using w h by (simp add: clearTimeout_def)
  show ?thesis
  proof (cases t)
    case Outer
    then show ?thesis
      using Some h c w
      by (simp add: fire_def one_loop_def outer_fn_def setTimeout_def onCallbackExecuted_def
          Let_def split: cbval.split outcome.split)
  next
    case Loop
    then show ?thesis
      using Some h c w
      by (simp add: fire_def one_loop_def loop_def setTimeout_def Let_def)
  qed
qed

lemma one_loop_inst_update:
  assumes "one_loop w" "stopped s = stopped (inst w)"
    "outerTimeoutTimer s = outerTimeoutTimer (inst w)"
    "innerTimeoutTimer s = innerTimeoutTimer (inst w)"
  shows "one_loop (w\<lparr>inst := s\<rparr>)"
  using assms by (simp add: one_loop_def)

lemma one_loop_exec:
  assumes "one_loop w" "is_Run c \<longrightarrow> stopped (inst w)"
  shows "one_loop (exec c w)"
proof (cases c)
  case (Run r)
  then show ?thesis using assms by (simp add: one_loop_run)
next
  case Stop
  then show ?thesis using assms by (simp add: one_loop_def one_loop_stop)
next
  case (SetMinInterval v)
  then show ?thesis using assms(1) by (simp add: one_loop_inst_update setMinInterval_def)
next
  case (SetMaxInterval v)
  then show ?thesis using assms(1) by (simp add: one_loop_inst_update setMaxInterval_def)
next
  case (SetCallback f)
  then show ?thesis using assms(1) by (simp add: one_loop_inst_update setCallback_def)
next
  case (Fire h r oc)
  then show ?thesis using assms(1) by (simp add: one_loop_fire)
qed

lemma one_loop_execs: "one_loop w \<Longrightarrow> guarded cs w \<Longrightarrow> one_loop (execs cs w)"
  by (induction cs arbitrary: w) (simp_all add: one_loop_exec)

lemma idle_exec:
  assumes "timers w = []" "\<not> is_Run c"
  shows "timers (exec c w) = [] \<and> trace (exec c w) = trace w"
  using assms by (cases c) (simp_all add: timers_stop fire_def)

lemma idle_execs:
  "timers w = [] \<Longrightarrow> list_all (\<lambda>c. \<not> is_Run c) cs \<Longrightarrow> trace (execs cs w) = trace w"
  by (induction cs arbitrary: w) (simp_all add: idle_exec)

lemma stop_silences_one_loop:
  assumes "guarded cs (new_world cb obj)" "list_all (\<lambda>c. \<not> is_Run c) cs'"
  shows "trace (execs cs' (stop (execs cs (new_world cb obj))))
           = trace (execs cs (new_world cb obj))"
proof -
  have "one_loop (execs cs (new_world cb obj))"
    using assms(1) by (simp add: one_loop_execs one_loop_new)
  then have "timers (stop (execs cs (new_world cb obj))) = []"
    by (rule one_loop_stop)
  then show ?thesis
    using assms(2) by (simp add: idle_execs)
qed

end
